theory Spec2Isabelle
  imports Complex_Main
begin

section \<open>Values, exceptions and dictionaries\<close>

text \<open>
  The development embeds \<^verbatim>\<open>skrl/agents/base.py\<close> (the class \<^verbatim>\<open>Agent\<close>) and
  \<^verbatim>\<open>tests/test_examples_isaac_orbit.py\<close> (the function \<^verbatim>\<open>test_scripts\<close>).

  A Python call either returns a value or raises; a method is a function from the
  receiver and the world to an outcome (\<open>Inl\<close> the exception raised, \<open>Inr\<close> the value
  returned) together with the receiver and the world it leaves behind. Effects that took
  place before an exception was raised stay in the world that is returned.
\<close>

datatype exn =
    NotImplementedError
  | TypeError
  | KeyError string
  | RuntimeError
  | ValueError
  | ImportError string
  | CalledProcessError int
  | OtherException string

text \<open>
  The Python values that occur as entries of the configuration dictionary and as
  results of the methods. \<open>DeviceV s\<close> is the object \<^verbatim>\<open>torch.device(s)\<close>.
\<close>

datatype pyvalue = NoneV | StrV string | IntV int | DeviceV string

text \<open>Objects with identity (environment, models, memory, writer) are references.\<close>

type_synonym ref = nat

text \<open>
  A \<^verbatim>\<open>dict\<close> with string keys is the list of its items in insertion order; the keys of a
  dictionary are distinct. \<open>dict_get\<close> is \<^verbatim>\<open>d.get(k, default)\<close>, \<open>dict_getitem\<close> is
  \<^verbatim>\<open>d[k]\<close>, which raises \<^verbatim>\<open>KeyError\<close> on a missing key, and \<open>dict_keys\<close> is the order in
  which \<^verbatim>\<open>for k in d\<close> visits the keys.
\<close>

type_synonym 'v dict = "(string \<times> 'v) list"

definition dict_get :: "'v dict \<Rightarrow> string \<Rightarrow> 'v \<Rightarrow> 'v" where
  "dict_get d k dflt = (case map_of d k of None \<Rightarrow> dflt | Some v \<Rightarrow> v)"

definition dict_getitem :: "'v dict \<Rightarrow> string \<Rightarrow> exn + 'v" where
  "dict_getitem d k = (case map_of d k of None \<Rightarrow> Inl (KeyError k) | Some v \<Rightarrow> Inr v)"

definition dict_keys :: "'v dict \<Rightarrow> string list" where
  "dict_keys d = map fst d"

text \<open>An optional argument of a call: left out, or given.\<close>

datatype 'a arg = Omitted | Given 'a

section \<open>The collaborators\<close>

subsection \<open>Paths\<close>

text \<open>
  \<^verbatim>\<open>os.path.join(a, *p)\<close> on a POSIX host: a component that starts with the separator
  replaces what was joined so far, otherwise it is appended, after a separator unless
  the path so far is empty or ends with one. A component that is not a string raises
  \<^verbatim>\<open>TypeError\<close>.
\<close>

definition join_step :: "string \<Rightarrow> string \<Rightarrow> string" where
  "join_step path b =
     (if b \<noteq> [] \<and> hd b = CHR ''/'' then b
      else if path = [] \<or> last path = CHR ''/'' then path @ b
      else path @ ''/'' @ b)"

definition posix_join :: "string \<Rightarrow> string list \<Rightarrow> string" where
  "posix_join a p = foldl join_step a p"

fun str_of :: "pyvalue \<Rightarrow> string option" where
  "str_of (StrV s) = Some s"
| "str_of _ = None"

definition os_path_join :: "pyvalue \<Rightarrow> pyvalue \<Rightarrow> exn + string" where
  "os_path_join a b =
     (case (str_of a, str_of b) of
        (Some x, Some y) \<Rightarrow> Inr (posix_join x [y])
      | _ \<Rightarrow> Inl TypeError)"

subsection \<open>The host\<close>

text \<open>
  What construction reads from the process it runs in: the working directory
  (\<^verbatim>\<open>os.getcwd()\<close>), the clock, already formatted by
  \<^verbatim>\<open>strftime("%y-%m-%d_%H-%M-%S")\<close>, and \<^verbatim>\<open>torch.cuda.is_available()\<close>; and what
  \<^verbatim>\<open>SummaryWriter\<close> reads: the clock, formatted by \<^verbatim>\<open>strftime("%b%d_%H-%M-%S")\<close>, the
  host name (\<^verbatim>\<open>socket.gethostname()\<close>), and the file system, which lets it create its
  event file under a directory (\<open>None\<close>) or makes the creation raise.
\<close>

record host =
  cwd :: string
  now_stamp :: string
  cuda_available :: bool
  writer_stamp :: string
  hostname :: string
  create_error :: "string \<Rightarrow> exn option"

subsection \<open>The world: logging sink, models, memory\<close>

text \<open>
  The world holds what the collaborators have received:
  \<^item> \<open>writers\<close>: the directory that every \<^verbatim>\<open>SummaryWriter\<close> created so far writes to; a
    writer is referred to by its position in this list;
  \<^item> \<open>scalars\<close>: the scalars written to the logging sink, each with the writer, its
    name, its value and its step index;
  \<^item> \<open>mode_calls\<close>: the \<^verbatim>\<open>set_mode\<close> invocations received by models, each with the model
    and the mode string;
  \<^item> \<open>stored\<close>: the transitions stored in memories, each with the memory; a transition is
    (states, actions, rewards, next states, dones).
  Tensors \<open>'t\<close> and the scalars \<open>'s\<close> read from them are those of the tensor library.
\<close>

record ('t, 's) world =
  writers :: "string list"
  scalars :: "(ref \<times> string \<times> 's \<times> int) list"
  mode_calls :: "(ref \<times> string) list"
  stored :: "(ref \<times> 't \<times> 't \<times> 't \<times> 't \<times> 't) list"

text \<open>
  \<^verbatim>\<open>SummaryWriter(log_dir=d)\<close>. The writer begins with \<^verbatim>\<open>if not log_dir:\<close> and replaces
  an empty \<^verbatim>\<open>log_dir\<close> by \<^verbatim>\<open>os.path.join("runs", current_time + "_" + hostname)\<close>;
  \<open>writer_dir\<close> is the directory it then writes to. Creating the event file there may
  raise, and then there is no writer.
\<close>

definition writer_dir :: "host \<Rightarrow> string \<Rightarrow> string" where
  "writer_dir h log_dir =
     (if log_dir = [] then posix_join ''runs'' [writer_stamp h @ ''_'' @ hostname h]
      else log_dir)"

definition SummaryWriter ::
  "host \<Rightarrow> string \<Rightarrow> ('t, 's) world \<Rightarrow> (exn + ref) \<times> ('t, 's) world" where
  "SummaryWriter h log_dir w =
     (let d = writer_dir h log_dir
      in case create_error h d of
           Some x \<Rightarrow> (Inl x, w)
         | None \<Rightarrow> (Inr (length (writers w)), w\<lparr>writers := writers w @ [d]\<rparr>))"

text \<open>
  \<^verbatim>\<open>writer.add_scalar(tag, value, step)\<close>: the scalar goes to the logging sink, keyed by
  its name and its step index. The step is stored in a signed 64-bit field of the event:
  a step outside that range raises \<^verbatim>\<open>ValueError\<close>, and nothing is written.
\<close>

definition step_in_range :: "int \<Rightarrow> bool" where
  "step_in_range step \<longleftrightarrow> - (2 ^ 63) \<le> step \<and> step < 2 ^ 63"

definition add_scalar ::
  "ref \<Rightarrow> string \<Rightarrow> 's \<Rightarrow> int \<Rightarrow> ('t, 's) world \<Rightarrow> exn + ('t, 's) world" where
  "add_scalar wr tag v step w =
     (if step_in_range step then Inr (w\<lparr>scalars := scalars w @ [(wr, tag, v, step)]\<rparr>)
      else Inl ValueError)"

text \<open>
  Modelled from the spec: \<^verbatim>\<open>Model.set_mode\<close> of \<^verbatim>\<open>skrl/models/torch\<close>, which is not
  part of the sources at hand. The specification says of the models only that they are
  "a model mapping supporting a mode switch": a model accepts the invocation, which is
  recorded in the world.
\<close>

definition Model_set_mode :: "ref \<Rightarrow> string \<Rightarrow> ('t, 's) world \<Rightarrow> ('t, 's) world" where
  "Model_set_mode m mode w = w\<lparr>mode_calls := mode_calls w @ [(m, mode)]\<rparr>"

subsection \<open>The tensor library\<close>

text \<open>
  \<^verbatim>\<open>torch.max\<close>, \<^verbatim>\<open>torch.min\<close>, \<^verbatim>\<open>torch.mean\<close> and \<^verbatim>\<open>Tensor.item\<close> compute in floating
  point and raise on tensors they do not accept, so they are parameters: every
  theorem about the agent holds for all of them.
\<close>

record ('t, 's) torch =
  torch_max :: "'t \<Rightarrow> exn + 't"
  torch_min :: "'t \<Rightarrow> exn + 't"
  torch_mean :: "'t \<Rightarrow> exn + 't"
  item :: "'t \<Rightarrow> exn + 's"

text \<open>\<open>reduced_item lib f t\<close> is the expression \<^verbatim>\<open>f(t).item()\<close>.\<close>

definition reduced_item :: "('t, 's) torch \<Rightarrow> ('t \<Rightarrow> exn + 't) \<Rightarrow> 't \<Rightarrow> exn + 's" where
  "reduced_item lib f t = (case f t of Inl x \<Rightarrow> Inl x | Inr r \<Rightarrow> item lib r)"

section \<open>The agent\<close>

record agent =
  env :: ref
  networks :: "ref dict"
  memory :: "ref option"
  cfg :: "pyvalue dict"
  device :: pyvalue
  experiment_dir :: string
  writer :: ref

subsection \<open>Construction\<close>

text \<open>
  \<open>Agent_init\<close> is the body of \<^verbatim>\<open>__init__\<close>; \<open>cls\<close> is \<^verbatim>\<open>self.__class__.__name__\<close>.
  Python evaluates the default of \<^verbatim>\<open>cfg.get\<close> before the lookup; the defaults here
  cannot raise. When \<^verbatim>\<open>os.path.join\<close> or \<^verbatim>\<open>SummaryWriter\<close> raises, no agent comes into
  being.
\<close>

definition Agent_init ::
  "host \<Rightarrow> string \<Rightarrow> ref \<Rightarrow> ref dict \<Rightarrow> ref option \<Rightarrow> pyvalue dict \<Rightarrow> ('t, 's) world
     \<Rightarrow> (exn + agent) \<times> ('t, 's) world" where
  "Agent_init h cls e nets mem c w =
     (let dev0 = dict_get c ''device'' NoneV;
          dev = (if dev0 = NoneV
                 then DeviceV (if cuda_available h then ''cuda'' else ''cpu'')
                 else dev0);
          log_dir = dict_get c ''log_dir'' (StrV (posix_join (cwd h) [''runs'']));
          experiment_name =
            dict_get c ''experiment_name'' (StrV (now_stamp h @ ''_'' @ cls))
      in case os_path_join log_dir experiment_name of
           Inl x \<Rightarrow> (Inl x, w)
         | Inr dir \<Rightarrow>
             (case SummaryWriter h dir w of
                (Inl x, w') \<Rightarrow> (Inl x, w')
              | (Inr wr, w') \<Rightarrow>
                  (Inr \<lparr>env = e, networks = nets, memory = mem, cfg = c, device = dev,
                        experiment_dir = dir, writer = wr\<rparr>, w')))"

text \<open>
  The call \<^verbatim>\<open>Agent(env, networks, memory, cfg)\<close> with its defaults:
  \<^verbatim>\<open>memory = None\<close> and \<^verbatim>\<open>cfg = {}\<close>.
\<close>

definition Agent_new ::
  "host \<Rightarrow> string \<Rightarrow> ref \<Rightarrow> ref dict \<Rightarrow> ref option arg \<Rightarrow> pyvalue dict arg
     \<Rightarrow> ('t, 's) world \<Rightarrow> (exn + agent) \<times> ('t, 's) world" where
  "Agent_new h cls e nets mem_arg cfg_arg w =
     Agent_init h cls e nets
       (case mem_arg of Omitted \<Rightarrow> None | Given m \<Rightarrow> m)
       (case cfg_arg of Omitted \<Rightarrow> [] | Given c \<Rightarrow> c) w"

subsection \<open>Methods\<close>

text \<open>\<^verbatim>\<open>act\<close>: the body is \<^verbatim>\<open>raise NotImplementedError\<close>.\<close>

definition act ::
  "agent \<Rightarrow> 't \<Rightarrow> bool \<Rightarrow> int option \<Rightarrow> int option \<Rightarrow> ('t, 's) world
     \<Rightarrow> (exn + 't) \<times> agent \<times> ('t, 's) world" where
  "act self states inference timestep timesteps w = (Inl NotImplementedError, self, w)"

text \<open>
  \<^verbatim>\<open>record_transition\<close>: three statements, each of which reduces \<open>rewards\<close>, reads the
  scalar and hands it to the writer. \<open>log_reduced\<close> is one such statement,
  \<^verbatim>\<open>self.writer.add_scalar(tag, f(rewards).item(), timestep)\<close>: the argument is evaluated
  before the call. An exception ends the method there; what was written before stays.
\<close>

definition log_reduced ::
  "('t, 's) torch \<Rightarrow> agent \<Rightarrow> string \<Rightarrow> ('t \<Rightarrow> exn + 't) \<Rightarrow> 't \<Rightarrow> int \<Rightarrow> ('t, 's) world
     \<Rightarrow> exn + ('t, 's) world" where
  "log_reduced lib self tag f rewards timestep w =
     (case reduced_item lib f rewards of
        Inl x \<Rightarrow> Inl x
      | Inr v \<Rightarrow> add_scalar (writer self) tag v timestep w)"

definition record_transition ::
  "('t, 's) torch \<Rightarrow> agent \<Rightarrow> 't \<Rightarrow> 't \<Rightarrow> 't \<Rightarrow> 't \<Rightarrow> 't \<Rightarrow> int \<Rightarrow> int \<Rightarrow> ('t, 's) world
     \<Rightarrow> (exn + pyvalue) \<times> agent \<times> ('t, 's) world" where
  "record_transition lib self states actions rewards next_states dones timestep timesteps w =
     (case log_reduced lib self ''Instantaneous reward/max'' (torch_max lib) rewards timestep w of
        Inl x \<Rightarrow> (Inl x, self, w)
      | Inr w1 \<Rightarrow>
          (case log_reduced lib self ''Instantaneous reward/min'' (torch_min lib) rewards
                  timestep w1 of
             Inl x \<Rightarrow> (Inl x, self, w1)
           | Inr w2 \<Rightarrow>
               (case log_reduced lib self ''Instantaneous reward/mean'' (torch_mean lib) rewards
                       timestep w2 of
                  Inl x \<Rightarrow> (Inl x, self, w2)
                | Inr w3 \<Rightarrow> (Inr NoneV, self, w3))))"

text \<open>
  \<^verbatim>\<open>set_mode\<close>: the loop \<^verbatim>\<open>for k in self.networks: self.networks[k].set_mode(mode)\<close>,
  over the keys that remain to be visited.
\<close>

fun set_mode_loop ::
  "agent \<Rightarrow> string list \<Rightarrow> string \<Rightarrow> ('t, 's) world \<Rightarrow> (exn + pyvalue) \<times> ('t, 's) world" where
  "set_mode_loop self [] mode w = (Inr NoneV, w)"
| "set_mode_loop self (k # ks) mode w =
     (case dict_getitem (networks self) k of
        Inl x \<Rightarrow> (Inl x, w)
      | Inr m \<Rightarrow> set_mode_loop self ks mode (Model_set_mode m mode w))"

definition set_mode ::
  "agent \<Rightarrow> string \<Rightarrow> ('t, 's) world \<Rightarrow> (exn + pyvalue) \<times> agent \<times> ('t, 's) world" where
  "set_mode self mode w =
     (case set_mode_loop self (dict_keys (networks self)) mode w of
        (r, w') \<Rightarrow> (r, self, w'))"

text \<open>\<^verbatim>\<open>pre_interaction\<close> and \<^verbatim>\<open>post_interaction\<close>: the body is \<^verbatim>\<open>pass\<close>.\<close>

definition pre_interaction ::
  "agent \<Rightarrow> int \<Rightarrow> int \<Rightarrow> ('t, 's) world \<Rightarrow> (exn + pyvalue) \<times> agent \<times> ('t, 's) world" where
  "pre_interaction self timestep timesteps w = (Inr NoneV, self, w)"

definition post_interaction ::
  "agent \<Rightarrow> int \<Rightarrow> int \<Rightarrow> ('t, 's) world \<Rightarrow> (exn + pyvalue) \<times> agent \<times> ('t, 's) world" where
  "post_interaction self timestep timesteps w = (Inr NoneV, self, w)"

section \<open>The integration test\<close>

text \<open>
  What the test leaves behind in the process: the warnings emitted and the commands
  launched by \<^verbatim>\<open>subprocess.run\<close>, each with its \<^verbatim>\<open>shell\<close> flag.
\<close>

record process =
  warnings :: "string list"
  launched :: "(string \<times> bool) list"

text \<open>
  \<^verbatim>\<open>subprocess.run(command, shell=..., check=...)\<close>: the command runs and exits with the
  status \<open>returncode command\<close>, a parameter; with \<^verbatim>\<open>check\<close> a status other than 0 raises
  \<^verbatim>\<open>CalledProcessError\<close>. The value returned is the exit status.
\<close>

definition subprocess_run ::
  "(string \<Rightarrow> int) \<Rightarrow> string \<Rightarrow> bool \<Rightarrow> bool \<Rightarrow> process \<Rightarrow> (exn + int) \<times> process" where
  "subprocess_run returncode command shell check p =
     (let p' = p\<lparr>launched := launched p @ [(command, shell)]\<rparr>;
          rc = returncode command
      in if check \<and> rc \<noteq> 0 then (Inl (CalledProcessError rc), p') else (Inr rc, p'))"

definition warnings_warn :: "string \<Rightarrow> process \<Rightarrow> process" where
  "warnings_warn msg p = p\<lparr>warnings := warnings p @ [msg]\<rparr>"

text \<open>The message of the warning; \<open>e\<close> is the text of the \<^verbatim>\<open>ImportError\<close>.\<close>

definition skip_message :: "string \<Rightarrow> string" where
  "skip_message e =
     [CHR 0x0A, CHR 0x0A] @ ''Unable to import omni.isaac.kit ('' @ e @ '').''
       @ [CHR 0x0A] @ ''This test will be skipped'' @ [CHR 0x0A]"

text \<open>
  \<^verbatim>\<open>test_scripts\<close>: the second argument is the outcome of the statement
  \<^verbatim>\<open>from omni.isaac.kit import SimulationApp\<close>: \<open>None\<close> when it succeeds, the exception
  it raises otherwise. Only an \<^verbatim>\<open>ImportError\<close> is caught; the fixture \<^verbatim>\<open>capsys\<close> is not used.
\<close>

fun test_scripts ::
  "(string \<Rightarrow> int) \<Rightarrow> exn option \<Rightarrow> string \<Rightarrow> process \<Rightarrow> (exn + pyvalue) \<times> process" where
  "test_scripts returncode (Some (ImportError e)) command p =
     (Inr NoneV, warnings_warn (skip_message e) p)"
| "test_scripts returncode (Some x) command p = (Inl x, p)"
| "test_scripts returncode None command p =
     (case subprocess_run returncode command True True p of
        (Inl x, p') \<Rightarrow> (Inl x, p')
      | (Inr _, p') \<Rightarrow> (Inr NoneV, p'))"

text \<open>
  The parametrization of the test. \<^verbatim>\<open>EXAMPLES_DIR\<close> is an absolute path computed from the
  location of the test file, a parameter here.
\<close>

definition PYTHON_ENVIRONMENT :: string where
  "PYTHON_ENVIRONMENT = ''orbit -p''"

definition EXAMPLE_DIR :: string where
  "EXAMPLE_DIR = ''isaacorbit''"

definition SCRIPTS :: "string list" where
  "SCRIPTS = [''ppo_cartpole.py'']"

definition COMMANDS :: "string \<Rightarrow> string list" where
  "COMMANDS EXAMPLES_DIR =
     map (\<lambda>script. PYTHON_ENVIRONMENT @ '' '' @ posix_join EXAMPLES_DIR [EXAMPLE_DIR, script]
                     @ '' --headless --num_envs 64'') SCRIPTS"

section \<open>Concrete inputs\<close>

text \<open>
  An instance of the tensor library on which the methods can be evaluated: a tensor is
  the list of its elements, an element is a rational number or NaN, and the reductions
  are computed exactly. As in PyTorch, \<^verbatim>\<open>torch.max\<close> and \<^verbatim>\<open>torch.min\<close> raise
  \<^verbatim>\<open>RuntimeError\<close> on a tensor without elements, the mean of no elements is NaN, NaN
  propagates, and \<^verbatim>\<open>item\<close> reads a tensor of one element.
\<close>

datatype number = Num rat | NaN

fun num_max :: "number \<Rightarrow> number \<Rightarrow> number" where
  "num_max (Num a) (Num b) = Num (max a b)"
| "num_max _ _ = NaN"

fun num_min :: "number \<Rightarrow> number \<Rightarrow> number" where
  "num_min (Num a) (Num b) = Num (min a b)"
| "num_min _ _ = NaN"

fun num_add :: "number \<Rightarrow> number \<Rightarrow> number" where
  "num_add (Num a) (Num b) = Num (a + b)"
| "num_add _ _ = NaN"

fun num_div :: "number \<Rightarrow> nat \<Rightarrow> number" where
  "num_div (Num a) n = (if n = 0 then NaN else Num (a / of_nat n))"
| "num_div NaN n = NaN"

definition exact_torch :: "(number list, number) torch" where
  "exact_torch =
     \<lparr>torch_max = (\<lambda>t. case t of [] \<Rightarrow> Inl RuntimeError | x # xs \<Rightarrow> Inr [foldl num_max x xs]),
      torch_min = (\<lambda>t. case t of [] \<Rightarrow> Inl RuntimeError | x # xs \<Rightarrow> Inr [foldl num_min x xs]),
      torch_mean = (\<lambda>t. Inr [num_div (foldl num_add (Num 0) t) (length t)]),
      item = (\<lambda>t. case t of [x] \<Rightarrow> Inr x | _ \<Rightarrow> Inl ValueError)\<rparr>"

text \<open>
  A host without CUDA on which every directory can be written, a world in which nothing
  has happened yet, and an agent.
\<close>

definition host0 :: host where
  "host0 =
     \<lparr>cwd = ''/home/user'', now_stamp = ''22-01-31_12-00-00'', cuda_available = False,
      writer_stamp = ''Jan31_12-00-00'', hostname = ''workstation'',
      create_error = (\<lambda>d. None)\<rparr>"

definition world0 :: "(number list, number) world" where
  "world0 = \<lparr>writers = [], scalars = [], mode_calls = [], stored = []\<rparr>"

definition agent0 :: agent where
  "agent0 =
     \<lparr>env = 7, networks = [(''policy'', 1), (''value'', 2)], memory = Some 3, cfg = [],
      device = DeviceV ''cpu'', experiment_dir = ''/home/user/runs/22-01-31_12-00-00_Agent'',
      writer = 0\<rparr>"

text \<open>Two configurations that differ in \<^verbatim>\<open>log_dir\<close> only, and one that names a device.\<close>

definition cfg_logs :: "pyvalue dict" where
  "cfg_logs = [(''log_dir'', StrV ''logs''), (''experiment_name'', StrV ''run1'')]"



text \<open>The agents that construction yields for \<open>cfg_logs\<close> and for \<open>cfg_out\<close>.\<close>

definition agent_logs :: agent where
  "agent_logs =
     \<lparr>env = 7, networks = [(''policy'', 1)], memory = None, cfg = cfg_logs,
      device = DeviceV ''cpu'', experiment_dir = ''logs/run1'', writer = 0\<rparr>"







section \<open>The required override and the interaction hooks\<close>

text \<open>
  C2. For every agent and every combination of the arguments states, inference,
  timestep and timesteps, \<^verbatim>\<open>act\<close> raises \<^verbatim>\<open>NotImplementedError\<close>, and the failed call
  leaves the agent and the world as they were.
\<close>

theorem act_raises_NotImplementedError:
  "act self states inference timestep timesteps w = (Inl NotImplementedError, self, w)"
  by (simp add: act_def)

text \<open>
  C6. \<^verbatim>\<open>pre_interaction\<close> and \<^verbatim>\<open>post_interaction\<close> are no-ops: for every agent and
  every timestep and timesteps each returns \<^verbatim>\<open>None\<close>, has no effect on the world and
  leaves every field of the agent unchanged.
\<close>

theorem interaction_hooks_noop:
  "pre_interaction self timestep timesteps w = (Inr NoneV, self, w) \<and>
   post_interaction self timestep timesteps w = (Inr NoneV, self, w)"
  by (simp add: pre_interaction_def post_interaction_def)

section \<open>Recording a transition\<close>

lemma log_reduced_Inr:
  assumes "reduced_item lib f rewards = Inr v" and "step_in_range timestep"
  shows "log_reduced lib self tag f rewards timestep w
         = Inr (w\<lparr>scalars := scalars w @ [(writer self, tag, v, timestep)]\<rparr>)"
  using assms by (simp add: log_reduced_def add_scalar_def)

lemma log_reduced_appends:
  assumes "log_reduced lib self tag f rewards timestep w = Inr w'"
  shows "\<exists>s. w' = w\<lparr>scalars := scalars w @ [s]\<rparr>"
  using assms
  by (auto simp: log_reduced_def add_scalar_def split: sum.splits if_splits)

text \<open>
  Whatever happens, the method touches the logging sink only: it appends at most three
  scalars, and the agent is returned as it was.
\<close>

lemma record_transition_frame:
  "\<exists>r ss. record_transition lib self states actions rewards next_states dones timestep
             timesteps w = (r, self, w\<lparr>scalars := scalars w @ ss\<rparr>) \<and> length ss \<le> 3"
proof (cases "log_reduced lib self ''Instantaneous reward/max'' (torch_max lib) rewards timestep w")
  case (Inl x)
  then have "record_transition lib self states actions rewards next_states dones timestep
               timesteps w = (Inl x, self, w\<lparr>scalars := scalars w @ []\<rparr>)"
    by (simp add: record_transition_def)
  then show ?thesis by (intro exI [of _ "Inl x"] exI [of _ "[]"]) simp
next
  case w1: (Inr w1)
  from log_reduced_appends [OF w1] obtain s1 where s1: "w1 = w\<lparr>scalars := scalars w @ [s1]\<rparr>" ..
  show ?thesis
  proof (cases "log_reduced lib self ''Instantaneous reward/min'' (torch_min lib) rewards
                  timestep w1")
    case (Inl x)
    with w1 have "record_transition lib self states actions rewards next_states dones timestep
                    timesteps w = (Inl x, self, w1)"
      by (simp add: record_transition_def)
    with s1 show ?thesis by (intro exI [of _ "Inl x"] exI [of _ "[s1]"]) simp
  next
    case w2: (Inr w2)
    from log_reduced_appends [OF w2] obtain s2 where s2: "w2 = w1\<lparr>scalars := scalars w1 @ [s2]\<rparr>" ..
    show ?thesis
    proof (cases "log_reduced lib self ''Instantaneous reward/mean'' (torch_mean lib) rewards
                    timestep w2")
      case (Inl x)
      with w1 w2 have "record_transition lib self states actions rewards next_states dones
                         timestep timesteps w = (Inl x, self, w2)"
        by (simp add: record_transition_def)
      with s1 s2 show ?thesis by (intro exI [of _ "Inl x"] exI [of _ "[s1, s2]"]) simp
    next
      case w3: (Inr w3)
      from log_reduced_appends [OF w3] obtain s3 where s3: "w3 = w2\<lparr>scalars := scalars w2 @ [s3]\<rparr>" ..
      from w1 w2 w3 have "record_transition lib self states actions rewards next_states dones
                            timestep timesteps w = (Inr NoneV, self, w3)"
        by (simp add: record_transition_def)
      with s1 s2 s3 show ?thesis
        by (intro exI [of _ "Inr NoneV"] exI [of _ "[s1, s2, s3]"]) simp
    qed
  qed
qed

lemma record_transition_returns:
  assumes "reduced_item lib (torch_max lib) rewards = Inr mx"
    and "reduced_item lib (torch_min lib) rewards = Inr mn"
    and "reduced_item lib (torch_mean lib) rewards = Inr me"
    and "step_in_range timestep"
  shows "record_transition lib self states actions rewards next_states dones timestep timesteps w
           = (Inr NoneV, self,
              w\<lparr>scalars := scalars w @
                 [(writer self, ''Instantaneous reward/max'', mx, timestep),
                  (writer self, ''Instantaneous reward/min'', mn, timestep),
                  (writer self, ''Instantaneous reward/mean'', me, timestep)]\<rparr>)"
  using assms by (simp add: record_transition_def log_reduced_Inr)

text \<open>
  C1, as stated, fails. On a rewards tensor without elements \<^verbatim>\<open>torch.max\<close> raises, so
  \<^verbatim>\<open>record_transition\<close> raises \<^verbatim>\<open>RuntimeError\<close> and writes no scalar at all; and with
  a step index that does not fit a signed 64-bit integer, here \<open>2 ^ 63\<close>, the first
  \<^verbatim>\<open>add_scalar\<close> raises \<^verbatim>\<open>ValueError\<close>, again before anything is written.
\<close>

theorem record_transition_empty_rewards_counterexample:
  "record_transition exact_torch agent0 [] [] [] [] [] 0 10 world0
     = (Inl RuntimeError, agent0, world0)
   \<and> record_transition exact_torch agent0 [] [] [Num 1, Num 3, Num 2] [] [] (2 ^ 63) (2 ^ 63 + 1)
       world0
     = (Inl ValueError, agent0, world0)"
  by (simp add: record_transition_def log_reduced_def reduced_item_def exact_torch_def
        add_scalar_def step_in_range_def)

text \<open>
  C1, amended. For every agent, every rewards tensor and every timestep,
  \<^verbatim>\<open>record_transition\<close> has only a logging side effect: it appends at most three scalars
  to the logging sink and changes nothing else, so that nothing is stored in a memory, and
  it returns the agent with every field as it was. Whenever \<^verbatim>\<open>torch.max\<close>, \<^verbatim>\<open>torch.min\<close>
  and \<^verbatim>\<open>torch.mean\<close> followed by \<^verbatim>\<open>item\<close> each return a scalar for the rewards and the
  timestep fits a signed 64-bit integer, it returns \<^verbatim>\<open>None\<close> and writes exactly three
  scalars to the agent's writer: the maximum, the minimum and the mean of the rewards,
  under the names 'Instantaneous reward/max', 'Instantaneous reward/min' and
  'Instantaneous reward/mean' and the step index timestep, in this order.
\<close>

theorem record_transition_logs_three_scalars:
  "(\<exists>r ss. record_transition lib self states actions rewards next_states dones timestep
              timesteps w = (r, self, w\<lparr>scalars := scalars w @ ss\<rparr>) \<and> length ss \<le> 3)
   \<and> stored (snd (snd (record_transition lib self states actions rewards next_states dones
                          timestep timesteps w))) = stored w
   \<and> (reduced_item lib (torch_max lib) rewards = Inr mx
      \<and> reduced_item lib (torch_min lib) rewards = Inr mn
      \<and> reduced_item lib (torch_mean lib) rewards = Inr me
      \<and> - (2 ^ 63) \<le> timestep \<and> timestep < 2 ^ 63
      \<longrightarrow> record_transition lib self states actions rewards next_states dones timestep
            timesteps w
          = (Inr NoneV, self,
             w\<lparr>scalars := scalars w @
                [(writer self, ''Instantaneous reward/max'', mx, timestep),
                 (writer self, ''Instantaneous reward/min'', mn, timestep),
                 (writer self, ''Instantaneous reward/mean'', me, timestep)]\<rparr>))"
proof (intro conjI impI)
  show "\<exists>r ss. record_transition lib self states actions rewards next_states dones timestep
                 timesteps w = (r, self, w\<lparr>scalars := scalars w @ ss\<rparr>) \<and> length ss \<le> 3"
    by (rule record_transition_frame)
next
  obtain r ss where "record_transition lib self states actions rewards next_states dones
                       timestep timesteps w = (r, self, w\<lparr>scalars := scalars w @ ss\<rparr>)"
    using record_transition_frame
            [of lib self states actions rewards next_states dones timestep timesteps w]
    by blast
  then show "stored (snd (snd (record_transition lib self states actions rewards next_states
                                 dones timestep timesteps w))) = stored w"
    by simp
next
  assume a: "reduced_item lib (torch_max lib) rewards = Inr mx
      \<and> reduced_item lib (torch_min lib) rewards = Inr mn
      \<and> reduced_item lib (torch_mean lib) rewards = Inr me
      \<and> - (2 ^ 63) \<le> timestep \<and> timestep < 2 ^ 63"
  then have "step_in_range timestep" by (simp add: step_in_range_def)
  with a show "record_transition lib self states actions rewards next_states dones timestep
                 timesteps w
               = (Inr NoneV, self,
                  w\<lparr>scalars := scalars w @
                     [(writer self, ''Instantaneous reward/max'', mx, timestep),
                      (writer self, ''Instantaneous reward/min'', mn, timestep),
                      (writer self, ''Instantaneous reward/mean'', me, timestep)]\<rparr>)"
    by (intro record_transition_returns) simp_all
qed

theorem record_transition_logs_three_scalars_witness:
  "reduced_item exact_torch (torch_max exact_torch) [Num 1, Num 3, Num 2] = Inr (Num 3)
   \<and> reduced_item exact_torch (torch_min exact_torch) [Num 1, Num 3, Num 2] = Inr (Num 1)
   \<and> reduced_item exact_torch (torch_mean exact_torch) [Num 1, Num 3, Num 2] = Inr (Num 2)
   \<and> record_transition exact_torch agent0 [] [] [Num 1, Num 3, Num 2] [] [] 5 10 world0
     = (Inr NoneV, agent0,
        world0\<lparr>scalars := scalars world0 @
          [(writer agent0, ''Instantaneous reward/max'', Num 3, 5),
           (writer agent0, ''Instantaneous reward/min'', Num 1, 5),
           (writer agent0, ''Instantaneous reward/mean'', Num 2, 5)]\<rparr>)
   \<and> scalars world0 = [] \<and> writer agent0 = 0"
proof -
  have mx: "reduced_item exact_torch (torch_max exact_torch) [Num 1, Num 3, Num 2] = Inr (Num 3)"
    by (simp add: reduced_item_def exact_torch_def)
  have mn: "reduced_item exact_torch (torch_min exact_torch) [Num 1, Num 3, Num 2] = Inr (Num 1)"
    by (simp add: reduced_item_def exact_torch_def)
  have me: "reduced_item exact_torch (torch_mean exact_torch) [Num 1, Num 3, Num 2] = Inr (Num 2)"
    by (simp add: reduced_item_def exact_torch_def)
  have range: "- (2 ^ 63) \<le> (5::int) \<and> (5::int) < 2 ^ 63" by simp
  have hyp: "reduced_item exact_torch (torch_max exact_torch) [Num 1, Num 3, Num 2] = Inr (Num 3)
      \<and> reduced_item exact_torch (torch_min exact_torch) [Num 1, Num 3, Num 2] = Inr (Num 1)
      \<and> reduced_item exact_torch (torch_mean exact_torch) [Num 1, Num 3, Num 2] = Inr (Num 2)
      \<and> - (2 ^ 63) \<le> (5::int) \<and> (5::int) < 2 ^ 63"
    using mx mn me range by (intro conjI) simp_all
  have run: "record_transition exact_torch agent0 [] [] [Num 1, Num 3, Num 2] [] [] 5 10 world0
     = (Inr NoneV, agent0,
        world0\<lparr>scalars := scalars world0 @
          [(writer agent0, ''Instantaneous reward/max'', Num 3, 5),
           (writer agent0, ''Instantaneous reward/min'', Num 1, 5),
           (writer agent0, ''Instantaneous reward/mean'', Num 2, 5)]\<rparr>)"
    by (rule record_transition_logs_three_scalars
               [THEN conjunct2, THEN conjunct2, THEN mp, OF hyp])
  have w0: "scalars world0 = []" by (simp add: world0_def)
  have a0: "writer agent0 = 0" by (simp add: agent0_def)
  from mx mn me run w0 a0 show ?thesis by (intro conjI)
qed

section \<open>Switching the mode of the models\<close>

text \<open>
  The loop never raises \<^verbatim>\<open>KeyError\<close>: every key it visits is a key of the dictionary.
  Each key visited adds one invocation, received by the model stored under that key.
\<close>

lemma set_mode_loop_visits:
  "set ks \<subseteq> fst ` set (networks self) \<Longrightarrow>
   set_mode_loop self ks mode w =
     (Inr NoneV,
      w\<lparr>mode_calls := mode_calls w @ map (\<lambda>k. (the (map_of (networks self) k), mode)) ks\<rparr>)"
proof (induction ks arbitrary: w)
  case Nil
  show ?case by simp
next
  case (Cons k ks)
  from Cons.prems have "k \<in> fst ` set (networks self)" by simp
  then obtain m where m: "map_of (networks self) k = Some m"
    by (cases "map_of (networks self) k") (auto simp: map_of_eq_None_iff)
  from Cons.prems have "set ks \<subseteq> fst ` set (networks self)" by simp
  from Cons.IH [OF this, of "Model_set_mode m mode w"] m
  show ?case by (simp add: dict_getitem_def Model_set_mode_def)
qed

lemma set_mode_result:
  "set_mode self mode w =
     (Inr NoneV, self,
      w\<lparr>mode_calls := mode_calls w @
          map (\<lambda>k. (the (map_of (networks self) k), mode)) (dict_keys (networks self))\<rparr>)"
  by (simp add: set_mode_def set_mode_loop_visits dict_keys_def)

lemma lookup_along_items:
  "distinct (map fst d) \<Longrightarrow>
   map (\<lambda>k. (the (map_of d k), mode)) (map fst d) = map (\<lambda>(k, m). (m, mode)) d"
proof (induction d)
  case Nil
  show ?case by simp
next
  case (Cons kv d)
  obtain k v where kv: "kv = (k, v)" by (cases kv)
  from Cons.prems kv have "k \<notin> fst ` set d" and dist: "distinct (map fst d)" by auto
  then have "map (\<lambda>x. (the (map_of (kv # d) x), mode)) (map fst d)
             = map (\<lambda>x. (the (map_of d x), mode)) (map fst d)"
    using kv by (auto simp: image_iff)
  with Cons.IH [OF dist] kv show ?case by simp
qed

text \<open>
  C3. For every agent and every mode string, \<^verbatim>\<open>set_mode(mode)\<close> invokes
  \<^verbatim>\<open>networks[k].set_mode(mode)\<close> exactly once for each key \<open>k\<close> of the networks mapping
  (the keys of a dictionary are distinct): the invocations it adds are, item by item of
  the mapping and in its order, the model of the item with the mode. It returns \<^verbatim>\<open>None\<close>
  and changes nothing else: the agent is as before, and so is the rest of the world.
\<close>

theorem set_mode_invokes_each_model_once:
  assumes "distinct (dict_keys (networks self))"
  shows "set_mode self mode w =
           (Inr NoneV, self,
            w\<lparr>mode_calls := mode_calls w @ map (\<lambda>(k, m). (m, mode)) (networks self)\<rparr>)"
proof -
  from assms
  have "map (\<lambda>k. (the (map_of (networks self) k), mode)) (dict_keys (networks self))
        = map (\<lambda>(k, m). (m, mode)) (networks self)"
    unfolding dict_keys_def by (rule lookup_along_items)
  then show ?thesis by (simp only: set_mode_result)
qed

theorem set_mode_invokes_each_model_once_witness:
  "distinct (dict_keys (networks agent0)) \<and>
   set_mode agent0 ''eval'' world0 =
     (Inr NoneV, agent0, world0\<lparr>mode_calls := [(1, ''eval''), (2, ''eval'')]\<rparr>)"
proof -
  have d: "distinct (dict_keys (networks agent0))"
    by (simp add: agent0_def dict_keys_def)
  show ?thesis
    using d set_mode_invokes_each_model_once [OF d, of "''eval''" world0]
    by (simp add: agent0_def world0_def)
qed

lemma lookup_of_key:
  "k \<in> fst ` set d \<Longrightarrow> Some (the (map_of d k)) = map_of d k"
  by (cases "map_of d k") (auto simp: map_of_eq_None_iff)

text \<open>
  C10. \<^verbatim>\<open>set_mode\<close> does not validate its argument: for any string whatsoever, not
  only 'train' or 'eval', it returns without raising, and it forwards the string to
  every model: it makes one invocation for each key of the networks mapping, in the order
  of the keys, the invocation for a key is received by the model that the mapping holds
  under that key, and every invocation carries that very string.
\<close>

theorem set_mode_forwards_any_string:
  "\<exists>calls. set_mode self mode w = (Inr NoneV, self, w\<lparr>mode_calls := mode_calls w @ calls\<rparr>)
     \<and> map (\<lambda>call. Some (fst call)) calls
         = map (\<lambda>k. map_of (networks self) k) (map fst (networks self))
     \<and> map snd calls = replicate (length (networks self)) mode"
proof -
  let ?calls = "map (\<lambda>k. (the (map_of (networks self) k), mode)) (map fst (networks self))"
  have run: "set_mode self mode w
             = (Inr NoneV, self, w\<lparr>mode_calls := mode_calls w @ ?calls\<rparr>)"
    using set_mode_result [of self mode w] by (simp only: dict_keys_def)
  have "\<forall>k \<in> set (map fst (networks self)).
          Some (the (map_of (networks self) k)) = map_of (networks self) k"
    by (simp add: lookup_of_key)
  then have receivers: "map (\<lambda>call. Some (fst call)) ?calls
                        = map (\<lambda>k. map_of (networks self) k) (map fst (networks self))"
    by (simp add: comp_def)
  have modes: "map snd ?calls = replicate (length (networks self)) mode"
    by (simp add: comp_def map_replicate_const)
  from run receivers modes show ?thesis by (intro exI [of _ ?calls] conjI)
qed

theorem set_mode_forwards_any_string_witness:
  "set_mode agent0 ''bogus'' world0
     = (Inr NoneV, agent0, world0\<lparr>mode_calls := [(1, ''bogus''), (2, ''bogus'')]\<rparr>)"
proof -
  from set_mode_forwards_any_string [of agent0 "''bogus''" world0]
  obtain calls where
    run: "set_mode agent0 ''bogus'' world0
          = (Inr NoneV, agent0, world0\<lparr>mode_calls := mode_calls world0 @ calls\<rparr>)"
    and receivers: "map (\<lambda>call. Some (fst call)) calls
                    = map (\<lambda>k. map_of (networks agent0) k) (map fst (networks agent0))"
    and modes: "map snd calls = replicate (length (networks agent0)) ''bogus''"
    by (elim exE conjE)
  from receivers have "map fst calls = [1, 2]"
    by (auto simp: agent0_def)
  moreover from modes have "map snd calls = [''bogus'', ''bogus'']"
    by (simp add: agent0_def)
  ultimately have "calls = [(1, ''bogus''), (2, ''bogus'')]"
    by (auto simp: map_eq_Cons_conv)
  with run show ?thesis by (simp add: world0_def)
qed

section \<open>Launching the example or skipping it\<close>

lemma COMMANDS_example:
  "COMMANDS ''/repo/docs/source/examples''
     = [''orbit -p /repo/docs/source/examples/isaacorbit/ppo_cartpole.py --headless --num_envs 64'']"
  by (simp add: COMMANDS_def SCRIPTS_def PYTHON_ENVIRONMENT_def EXAMPLE_DIR_def
        posix_join_def join_step_def)


text \<open>
  C7. For every command, and so for every command of \<open>COMMANDS\<close>, the parametrized list: when
  \<^verbatim>\<open>omni.isaac.kit\<close> can be imported, the test launches the command once as a subprocess
  through the shell and checks its exit status (status 0 lets the test return, any
  other status raises \<^verbatim>\<open>CalledProcessError\<close>), without a warning; when the import
  raises \<^verbatim>\<open>ImportError\<close>, the test emits one warning and returns without launching a
  subprocess.
\<close>

theorem test_scripts_runs_or_skips:
  "test_scripts returncode None command p =
     (if returncode command = 0 then Inr NoneV
      else Inl (CalledProcessError (returncode command)),
      p\<lparr>launched := launched p @ [(command, True)]\<rparr>)
   \<and> test_scripts returncode (Some (ImportError e)) command p =
     (Inr NoneV, p\<lparr>warnings := warnings p @ [skip_message e]\<rparr>)"
  by (simp add: subprocess_run_def warnings_warn_def Let_def)

section \<open>Construction\<close>

lemma os_path_join_Inr:
  "os_path_join a b = Inr d \<longleftrightarrow> (\<exists>x y. a = StrV x \<and> b = StrV y \<and> d = posix_join x [y])"
  by (cases a; cases b) (auto simp: os_path_join_def)

text \<open>What a construction that returns an agent has done.\<close>

lemma Agent_init_Inr:
  assumes "Agent_init h cls e nets mem c w = (Inr a, w')"
  shows "os_path_join (dict_get c ''log_dir'' (StrV (posix_join (cwd h) [''runs''])))
           (dict_get c ''experiment_name'' (StrV (now_stamp h @ ''_'' @ cls)))
         = Inr (experiment_dir a)"
    and "env a = e" and "networks a = nets" and "memory a = mem" and "cfg a = c"
    and "device a =
           (if dict_get c ''device'' NoneV = NoneV
            then DeviceV (if cuda_available h then ''cuda'' else ''cpu'')
            else dict_get c ''device'' NoneV)"
    and "writer a = length (writers w)"
    and "w' = w\<lparr>writers := writers w @ [writer_dir h (experiment_dir a)]\<rparr>"
    and "create_error h (writer_dir h (experiment_dir a)) = None"
  using assms
  by (auto simp: Agent_init_def Let_def SummaryWriter_def split: sum.splits option.splits)


lemma Agent_init_cfg_logs:
  "Agent_init host0 ''Agent'' 7 [(''policy'', 1)] None cfg_logs world0
     = (Inr agent_logs, world0\<lparr>writers := [''logs/run1'']\<rparr>)"
  by (simp add: Agent_init_def Let_def SummaryWriter_def writer_dir_def os_path_join_def
        dict_get_def posix_join_def join_step_def cfg_logs_def agent_logs_def host0_def
        world0_def)





lemma Agent_new_defaults:
  "Agent_new host0 ''Agent'' 7 [(''policy'', 1), (''value'', 2)] (Given (Some 3)) Omitted world0
     = (Inr agent0, world0\<lparr>writers := [''/home/user/runs/22-01-31_12-00-00_Agent'']\<rparr>)"
  by (simp add: Agent_new_def Agent_init_def Let_def SummaryWriter_def writer_dir_def
        os_path_join_def dict_get_def posix_join_def join_step_def agent0_def host0_def
        world0_def)

lemma Agent_new_omitted_memory:
  "Agent_new host0 ''Agent'' 7 [(''policy'', 1)] Omitted (Given cfg_logs) world0
     = (Inr agent_logs, world0\<lparr>writers := [''logs/run1'']\<rparr>)"
  unfolding Agent_new_def by (simp only: arg.case Agent_init_cfg_logs)

text \<open>
  C4. For every env, networks, memory and cfg, the constructed agent's fields
  \<open>env\<close>, \<open>networks\<close>, \<open>memory\<close> and \<open>cfg\<close> are exactly the arguments passed in, where
  an omitted memory is \<^verbatim>\<open>None\<close> and an omitted cfg is the empty dictionary.
\<close>

theorem Agent_new_wraps_arguments:
  assumes "Agent_new h cls e nets mem_arg cfg_arg w = (Inr a, w')"
  shows "env a = e \<and> networks a = nets
         \<and> memory a = (case mem_arg of Omitted \<Rightarrow> None | Given m \<Rightarrow> m)
         \<and> cfg a = (case cfg_arg of Omitted \<Rightarrow> [] | Given c \<Rightarrow> c)"
  using assms unfolding Agent_new_def by (simp add: Agent_init_Inr)

theorem Agent_new_wraps_arguments_witness:
  "Agent_new host0 ''Agent'' 7 [(''policy'', 1), (''value'', 2)] (Given (Some 3)) Omitted world0
     = (Inr agent0, world0\<lparr>writers := [''/home/user/runs/22-01-31_12-00-00_Agent'']\<rparr>)
   \<and> (env agent0 = 7 \<and> networks agent0 = [(''policy'', 1), (''value'', 2)]
      \<and> memory agent0 = Some 3 \<and> cfg agent0 = [])
   \<and> Agent_new host0 ''Agent'' 7 [(''policy'', 1)] Omitted (Given cfg_logs) world0
     = (Inr agent_logs, world0\<lparr>writers := [''logs/run1'']\<rparr>)
   \<and> (env agent_logs = 7 \<and> networks agent_logs = [(''policy'', 1)]
      \<and> memory agent_logs = None \<and> cfg agent_logs = cfg_logs)"
proof (intro conjI)
  show "Agent_new host0 ''Agent'' 7 [(''policy'', 1), (''value'', 2)] (Given (Some 3)) Omitted
          world0
        = (Inr agent0, world0\<lparr>writers := [''/home/user/runs/22-01-31_12-00-00_Agent'']\<rparr>)"
    by (rule Agent_new_defaults)
  show "Agent_new host0 ''Agent'' 7 [(''policy'', 1)] Omitted (Given cfg_logs) world0
        = (Inr agent_logs, world0\<lparr>writers := [''logs/run1'']\<rparr>)"
    by (rule Agent_new_omitted_memory)
  show "env agent0 = 7"
    using Agent_new_wraps_arguments [OF Agent_new_defaults] by (rule conjunct1)
  show "memory agent_logs = None"
    using Agent_new_wraps_arguments [OF Agent_new_omitted_memory] by simp
qed (simp_all add: agent0_def agent_logs_def)









end
